theory Spec2Isabelle
  imports Main "HOL-Library.Product_Lexorder" "HOL-Library.Multiset"
begin

section \<open>Values, exceptions and text\<close>

text \<open>
  The application is the single module \<^verbatim>\<open>wsgi.py\<close>: a broker callback that turns
  water-level messages into rows of one table, and three HTTP routes. Python values that
  come out of \<^verbatim>\<open>json.loads\<close> or \<^verbatim>\<open>request.get_json\<close> are the constructors of
  \<open>json\<close>; \<open>JNull\<close> is Python's \<^verbatim>\<open>None\<close>. A float is carried as mantissa and binary
  exponent: the code never computes with it, it only hands it on. Text is a list of
  code points below 256.
\<close>

datatype json =
    JNull
  | JBool bool
  | JInt int
  | JFloat int int
  | JStr string
  | JArr "json list"
  | JObj "(string \<times> json) list"

text \<open>
  An exception is its class and the text \<^verbatim>\<open>str(e)\<close> gives. The wording of interpreter
  and library messages follows CPython 3.11; only the class decides control flow.
\<close>

datatype exc_class =
    NameError | UnicodeDecodeError | JSONDecodeError | IndexError | KeyError
  | TypeError | ValueError | AttributeError
  | IntegrityError | DataError | ProgrammingError | OperationalError | BadRequest

type_synonym exn = "exc_class \<times> string"

definition str_exn :: "exn \<Rightarrow> string" where
  "str_exn e = snd e"

definition quoted :: "string \<Rightarrow> string" where
  "quoted s = CHR 0x27 # s @ [CHR 0x27]"

definition type_name :: "json \<Rightarrow> string" where
  "type_name v =
     (case v of
        JNull \<Rightarrow> ''NoneType'' | JBool _ \<Rightarrow> ''bool'' | JInt _ \<Rightarrow> ''int''
      | JFloat _ _ \<Rightarrow> ''float'' | JStr _ \<Rightarrow> ''str'' | JArr _ \<Rightarrow> ''list''
      | JObj _ \<Rightarrow> ''dict'')"


subsection \<open>Formatting integers: \<^verbatim>\<open>str(n)\<close> inside an f-string\<close>

definition digit_char :: "nat \<Rightarrow> char" where
  "digit_char d = ''0123456789abcdef'' ! d"

function str_nat :: "nat \<Rightarrow> string" where
  "str_nat n = (if n < 10 then [digit_char n] else str_nat (n div 10) @ [digit_char (n mod 10)])"
  by pat_completeness auto
termination
  by (relation "measure (\<lambda>n. n)") auto

declare str_nat.simps [simp del]

definition str_int :: "int \<Rightarrow> string" where
  "str_int i = (if i < 0 then CHR ''-'' # str_nat (nat (- i)) else str_nat (nat i))"

text \<open>
  Python converts between integers and decimal text only up to \<open>max_str_digits\<close>
  digits. \<open>format_int\<close> is the integer as an f-string writes it: its numeral, or a
  \<^verbatim>\<open>ValueError\<close> for an integer of more digits.
\<close>

definition max_str_digits :: nat where
  "max_str_digits = 4300"

definition format_int :: "int \<Rightarrow> exn + string" where
  "format_int i =
     (if 10 ^ max_str_digits \<le> \<bar>i\<bar> then
        Inl (ValueError,
             ''Exceeds the limit (4300 digits) for integer string conversion; ''
             @ ''use sys.set_int_max_str_digits() to increase the limit'')
      else Inr (str_int i))"

subsection \<open>\<^verbatim>\<open>repr(s)\<close> of a string\<close>

text \<open>
  The string between single quotes, or between double quotes when it holds a single
  quote and no double quote; the backslash, the chosen quote, tab, newline and carriage
  return are escaped, and a code point that is not printable is written \<^verbatim>\<open>\xNN\<close>.
\<close>

definition py_printable :: "char \<Rightarrow> bool" where
  "py_printable c =
     (let n = (of_char c :: nat) in
      (0x20 \<le> n \<and> n \<le> 0x7E) \<or> (0xA1 \<le> n \<and> n \<noteq> 0xAD))"

definition repr_char :: "char \<Rightarrow> char \<Rightarrow> string" where
  "repr_char quote c =
     (let n = (of_char c :: nat) in
      if c = quote \<or> n = 0x5C then [CHR 0x5C, c]
      else if n = 0x09 then [CHR 0x5C, CHR ''t'']
      else if n = 0x0A then [CHR 0x5C, CHR ''n'']
      else if n = 0x0D then [CHR 0x5C, CHR ''r'']
      else if py_printable c then [c]
      else [CHR 0x5C, CHR ''x'', digit_char (n div 16), digit_char (n mod 16)])"

definition py_repr :: "string \<Rightarrow> string" where
  "py_repr s =
     (let quote = (if CHR 0x27 \<in> set s \<and> CHR 0x22 \<notin> set s then CHR 0x22 else CHR 0x27)
      in quote # concat (map (repr_char quote) s) @ [quote])"

subsection \<open>\<^verbatim>\<open>json.dumps\<close> of a string (default \<^verbatim>\<open>ensure_ascii=True\<close>)\<close>

definition json_escape :: "char \<Rightarrow> string" where
  "json_escape c =
     (let n = (of_char c :: nat) in
      if n = 0x5C then [CHR 0x5C, CHR 0x5C]
      else if n = 0x22 then [CHR 0x5C, CHR 0x22]
      else if n = 0x08 then [CHR 0x5C, CHR ''b'']
      else if n = 0x0C then [CHR 0x5C, CHR ''f'']
      else if n = 0x0A then [CHR 0x5C, CHR ''n'']
      else if n = 0x0D then [CHR 0x5C, CHR ''r'']
      else if n = 0x09 then [CHR 0x5C, CHR ''t'']
      else if 0x20 \<le> n \<and> n \<le> 0x7E then [c]
      else [CHR 0x5C, CHR ''u'', CHR ''0'', CHR ''0'', digit_char (n div 16), digit_char (n mod 16)])"

definition json_dumps_str :: "string \<Rightarrow> string" where
  "json_dumps_str s = CHR 0x22 # concat (map json_escape s) @ [CHR 0x22]"

text \<open>\<^verbatim>\<open>json.dumps({'action': command})\<close> for a string \<open>command\<close>.\<close>

definition json_dumps_action :: "string \<Rightarrow> string" where
  "json_dumps_action command =
     CHR ''{'' # json_dumps_str ''action'' @ '': '' @ json_dumps_str command @ ''}''"

text \<open>The characters \<^verbatim>\<open>json.dumps\<close> copies as they are: printable ASCII other than the
  double quote and the backslash.\<close>

definition plain_char :: "char \<Rightarrow> bool" where
  "plain_char c = (0x20 \<le> (of_char c :: nat) \<and> (of_char c :: nat) \<le> 0x7E
                    \<and> (of_char c :: nat) \<noteq> 0x22 \<and> (of_char c :: nat) \<noteq> 0x5C)"

subsection \<open>Reading a command payload back\<close>

text \<open>
  What a subscriber makes of the payload, written from the JSON grammar and not from the
  encoder above: a string literal runs to the closing double quote; a backslash starts
  an escape, one of \<^verbatim>\<open>" \\ / b f n r t\<close> or \<^verbatim>\<open>u\<close> with four hexadecimal
  digits; a control character may not stand unescaped. \<open>read_string\<close> starts after
  the opening quote and gives the string and the text after the closing quote.
\<close>

definition hex_value :: "char \<Rightarrow> nat option" where
  "hex_value c =
     (let n = (of_char c :: nat) in
      if 48 \<le> n \<and> n \<le> 57 then Some (n - 48)
      else if 97 \<le> n \<and> n \<le> 102 then Some (n - 87)
      else if 65 \<le> n \<and> n \<le> 70 then Some (n - 55)
      else None)"

definition hex4_value :: "char \<Rightarrow> char \<Rightarrow> char \<Rightarrow> char \<Rightarrow> nat option" where
  "hex4_value a b c d =
     (case (hex_value a, hex_value b, hex_value c, hex_value d) of
        (Some x3, Some x2, Some x1, Some x0) \<Rightarrow> Some (4096 * x3 + 256 * x2 + 16 * x1 + x0)
      | _ \<Rightarrow> None)"

definition simple_escape :: "char \<Rightarrow> char option" where
  "simple_escape e =
     (if e = CHR 0x22 then Some (CHR 0x22)
      else if e = CHR 0x5C then Some (CHR 0x5C)
      else if e = CHR ''/'' then Some (CHR ''/'')
      else if e = CHR ''b'' then Some (CHR 0x08)
      else if e = CHR ''f'' then Some (CHR 0x0C)
      else if e = CHR ''n'' then Some (CHR 0x0A)
      else if e = CHR ''r'' then Some (CHR 0x0D)
      else if e = CHR ''t'' then Some (CHR 0x09)
      else None)"

definition prepend :: "char \<Rightarrow> (string \<times> string) option \<Rightarrow> (string \<times> string) option" where
  "prepend c r = (case r of None \<Rightarrow> None | Some (s, rest) \<Rightarrow> Some (c # s, rest))"

fun read_string :: "string \<Rightarrow> (string \<times> string) option" where
  "read_string [] = None"
| "read_string [c] = (if c = CHR 0x22 then Some ([], []) else None)"
| "read_string (c # e # cs) =
     (if c = CHR 0x22 then Some ([], e # cs)
      else if c = CHR 0x5C then
        (if e = CHR ''u'' then
           (case cs of
              h3 # h2 # h1 # h0 # cs' \<Rightarrow>
                (case hex4_value h3 h2 h1 h0 of
                   None \<Rightarrow> None
                 | Some n \<Rightarrow> if n < 256 then prepend (char_of n) (read_string cs') else None)
            | _ \<Rightarrow> None)
         else (case simple_escape e of
                 None \<Rightarrow> None
               | Some d \<Rightarrow> prepend d (read_string cs)))
      else if (of_char c :: nat) < 0x20 then None
      else prepend c (read_string (e # cs)))"

text \<open>
  The object with the one key \<^verbatim>\<open>action\<close> and a string value, in the layout
  \<^verbatim>\<open>json.dumps\<close> writes: the value of the key, or \<open>None\<close> for any other text.
\<close>

definition read_action :: "string \<Rightarrow> string option" where
  "read_action text =
     (case text of
        b # q # rest \<Rightarrow>
          if b = CHR ''{'' \<and> q = CHR 0x22 then
            (case read_string rest of
               Some (key, c # sp # q' # rest') \<Rightarrow>
                 if key = ''action'' \<and> c = CHR '':'' \<and> sp = CHR '' '' \<and> q' = CHR 0x22 then
                   (case read_string rest' of
                      Some (v, end) \<Rightarrow> if end = ''}'' then Some v else None
                    | None \<Rightarrow> None)
                 else None
             | _ \<Rightarrow> None)
          else None
      | _ \<Rightarrow> None)"

section \<open>The table, the broker client and the world\<close>

text \<open>
  A \<^verbatim>\<open>datetime\<close> is its seven fields; it is ordered field by field, and
  \<^verbatim>\<open>isoformat()\<close> prints the fields.
\<close>

record datetime =
  year :: nat
  month :: nat
  day :: nat
  hour :: nat
  minute :: nat
  second :: nat
  microsecond :: nat

definition dt_key :: "datetime \<Rightarrow> nat \<times> nat \<times> nat \<times> nat \<times> nat \<times> nat \<times> nat" where
  "dt_key t = (year t, month t, day t, hour t, minute t, second t, microsecond t)"

definition zero_pad :: "nat \<Rightarrow> nat \<Rightarrow> string" where
  "zero_pad width n = replicate (width - length (str_nat n)) CHR ''0'' @ str_nat n"

definition isoformat :: "datetime \<Rightarrow> string" where
  "isoformat t =
     zero_pad 4 (year t) @ ''-'' @ zero_pad 2 (month t) @ ''-'' @ zero_pad 2 (day t) @ ''T''
     @ zero_pad 2 (hour t) @ '':'' @ zero_pad 2 (minute t) @ '':'' @ zero_pad 2 (second t)
     @ (if microsecond t = 0 then [] else ''.'' @ zero_pad 6 (microsecond t))"

text \<open>
  \<^verbatim>\<open>class WaterLevel(db.Model)\<close>: four columns. An object that has not been flushed
  has no \<open>id\<close> and no \<open>timestamp\<close>; \<open>level_cm\<close> holds whatever Python value the
  constructor was given (\<open>JNull\<close> for \<^verbatim>\<open>None\<close>). In a stored row \<open>level_cm\<close> is a
  double: \<open>JFloat m e\<close> is the double \<open>m * 2 ^ e\<close>.
\<close>

record WaterLevel =
  id :: "int option"
  tank_id :: "int option"
  level_cm :: json
  timestamp :: "datetime option"

datatype log_line =
    LogCmd string string
  | LogConnected
  | LogConnectFailed int
  | LogDb string json
  | LogError exn
  | LogFailedPayload string

text \<open>
  The ambient objects \<^verbatim>\<open>db\<close> and \<^verbatim>\<open>mqtt\<close> and the process's standard output.
  \<^item> \<open>db_rows\<close>: the committed rows of the table, oldest insert first; \<open>db_seq\<close>: the
    identifier the table gives the next row.
  \<^item> \<open>db_down\<close>: \<open>Some text\<close> when the database server cannot be reached; every
    statement then raises an error with that text.
  \<^item> \<open>db_float8in\<close>: how the database reads a text literal as a value of the
    \<^verbatim>\<open>db.Float\<close> column: the double it denotes, or \<open>None\<close> when it refuses the
    text. A level that is a JSON string reaches the database as such a literal. The
    reader belongs to the database server; \<open>pg_float8in\<close> below reads decimal literals.
  \<^item> \<open>db_now\<close>: what \<^verbatim>\<open>db.func.now()\<close> evaluates to.
  \<^item> \<open>mqtt_published\<close>: the calls of \<^verbatim>\<open>mqtt.publish(topic, payload)\<close>, in order;
    \<open>mqtt_subscribed\<close>: the calls of \<^verbatim>\<open>mqtt.subscribe\<close>.
\<close>

record world =
  db_rows :: "WaterLevel list"
  db_seq :: int
  db_down :: "string option"
  db_float8in :: "string \<Rightarrow> json option"
  db_now :: datetime
  mqtt_connected :: bool
  mqtt_subscribed :: "string list"
  mqtt_published :: "(string \<times> string) list"
  stdout :: "log_line list"

type_synonym response = "nat \<times> json"

section \<open>Publishing a gate command\<close>

text \<open>
  \<^verbatim>\<open>send_gate_command(tank_id, command)\<close>: builds the topic and the payload, publishes
  once and prints one line. Building the topic formats the identifier, which raises for
  an integer Python does not format; nothing has been published then.
\<close>

definition send_gate_command :: "world \<Rightarrow> int \<Rightarrow> string \<Rightarrow> exn + world" where
  "send_gate_command w tank command =
     (case format_int tank of
        Inl e \<Rightarrow> Inl e
      | Inr tank_text \<Rightarrow>
          (let topic = ''command/gate/'' @ tank_text @ ''/action'';
               payload = json_dumps_action command
           in Inr (w\<lparr>mqtt_published := mqtt_published w @ [(topic, payload)],
                     stdout := stdout w @ [LogCmd payload topic]\<rparr>)))"

section \<open>The command endpoint\<close>

text \<open>
  The names the module binds at top level: its imports, assignments, class and functions.
  A global name that is neither here nor a builtin raises \<^verbatim>\<open>NameError\<close> when it is
  evaluated.
\<close>

definition module_globals :: "string list" where
  "module_globals =
     [''Flask'', ''jsonify'', ''SQLAlchemy'', ''Mqtt'', ''json'', ''os'', ''text'',
      ''app'', ''DB_PASSWORD'', ''db'', ''mqtt'', ''WaterLevel'', ''send_gate_command'',
      ''handle_connect'', ''handle_mqtt_message'', ''home'', ''get_levels'',
      ''api_command_gate'']"

definition load_global :: "string \<Rightarrow> exn + unit" where
  "load_global name =
     (if name \<in> set module_globals then Inr ()
      else Inl (NameError, ''name '' @ quoted name @ '' is not defined''))"

text \<open>\<^verbatim>\<open>data.get(key)\<close>: a dictionary lookup with default \<^verbatim>\<open>None\<close>; other values have no \<^verbatim>\<open>get\<close>.\<close>

definition py_get :: "json \<Rightarrow> string \<Rightarrow> exn + json" where
  "py_get data key =
     (case data of
        JObj kvs \<Rightarrow> Inr (case map_of kvs key of None \<Rightarrow> JNull | Some v \<Rightarrow> v)
      | _ \<Rightarrow> Inl (AttributeError,
                 quoted (type_name data) @ '' object has no attribute '' @ quoted ''get''))"

definition error_500 :: "exn \<Rightarrow> response" where
  "error_500 e = (500, JObj [(''error'', JStr (str_exn e))])"

text \<open>
  \<^verbatim>\<open>api_command_gate(tank_id)\<close>. \<open>body\<close> is what \<^verbatim>\<open>request.get_json()\<close> would give:
  the parsed body, or the exception it raises. The whole function body is inside
  \<^verbatim>\<open>try ... except Exception\<close>, and its first step evaluates the global name
  \<^verbatim>\<open>request\<close>.
\<close>

definition api_command_gate :: "world \<Rightarrow> int \<Rightarrow> exn + json \<Rightarrow> response \<times> world" where
  "api_command_gate w tank body =
     (case load_global ''request'' of
        Inl e \<Rightarrow> (error_500 e, w)
      | Inr _ \<Rightarrow>
          (case body of
             Inl e \<Rightarrow> (error_500 e, w)
           | Inr data \<Rightarrow>
               (case py_get data ''action'' of
                  Inl e \<Rightarrow> (error_500 e, w)
                | Inr command \<Rightarrow>
                    (case command of
                       JStr c \<Rightarrow>
                         if c \<in> set [''open'', ''close''] then
                           (case send_gate_command w tank c of
                              Inl e \<Rightarrow> (error_500 e, w)
                            | Inr w' \<Rightarrow>
                                ((200, JObj [(''status'', JStr ''Command sent''),
                                             (''tank_id'', JInt tank),
                                             (''action'', command)]),
                                 w'))
                         else ((400, JObj [(''error'', JStr ''Invalid command'')]), w)
                     | _ \<Rightarrow> ((400, JObj [(''error'', JStr ''Invalid command'')]), w)))))"

section \<open>Reading a topic and a payload\<close>

text \<open>\<^verbatim>\<open>topic.split('/')\<close>: the segments between the separators; never an empty list.\<close>

fun split_on :: "char \<Rightarrow> string \<Rightarrow> string list" where
  "split_on sep [] = [[]]"
| "split_on sep (c # cs) =
     (if c = sep then [] # split_on sep cs
      else (case split_on sep cs of
              [] \<Rightarrow> [[c]]
            | p # ps \<Rightarrow> (c # p) # ps))"

text \<open>\<^verbatim>\<open>xs[i]\<close> for a non-negative constant \<open>i\<close>: \<^verbatim>\<open>IndexError\<close> past the end.\<close>

definition py_index :: "'a list \<Rightarrow> nat \<Rightarrow> exn + 'a" where
  "py_index xs i =
     (if i < length xs then Inr (xs ! i) else Inl (IndexError, ''list index out of range''))"

text \<open>
  \<^verbatim>\<open>int(s)\<close> for a string, base 10: white space around the literal is dropped, one
  sign may lead, the digits may be separated by single underscores, and a literal of
  more than \<open>max_str_digits\<close> digits is refused. Everything else is a \<^verbatim>\<open>ValueError\<close>.
\<close>

definition py_isspace :: "char \<Rightarrow> bool" where
  "py_isspace c = ((of_char c :: nat) \<in> set [0x09, 0x0A, 0x0B, 0x0C, 0x0D, 0x20, 0x85, 0xA0])"

definition strip :: "string \<Rightarrow> string" where
  "strip s = rev (dropWhile py_isspace (rev (dropWhile py_isspace s)))"

definition is_digit :: "char \<Rightarrow> bool" where
  "is_digit c = (48 \<le> (of_char c :: nat) \<and> (of_char c :: nat) \<le> 57)"

fun no_double_underscore :: "string \<Rightarrow> bool" where
  "no_double_underscore (a # b # cs) =
     (\<not> (a = CHR ''_'' \<and> b = CHR ''_'') \<and> no_double_underscore (b # cs))"
| "no_double_underscore _ = True"

definition digits_ok :: "string \<Rightarrow> bool" where
  "digits_ok b =
     (case b of
        [] \<Rightarrow> False
      | c # cs \<Rightarrow> is_digit c \<and> is_digit (last b)
                 \<and> list_all (\<lambda>d. is_digit d \<or> d = CHR ''_'') b
                 \<and> no_double_underscore b)"

definition digits_value :: "string \<Rightarrow> nat" where
  "digits_value b = foldl (\<lambda>acc c. 10 * acc + ((of_char c :: nat) - 48)) 0 (filter is_digit b)"

definition py_int :: "string \<Rightarrow> exn + int" where
  "py_int s =
     (let t = strip s;
          neg = (case t of [] \<Rightarrow> False | c # _ \<Rightarrow> c = CHR ''-'');
          b = (case t of [] \<Rightarrow> [] | c # cs \<Rightarrow> if c = CHR ''-'' \<or> c = CHR ''+'' then cs else t);
          n = length (filter is_digit b)
      in if \<not> digits_ok b then
           Inl (ValueError, ''invalid literal for int() with base 10: '' @ py_repr s)
         else if max_str_digits < n then
           Inl (ValueError,
                ''Exceeds the limit (4300 digits) for integer string conversion: value has ''
                @ str_nat n @ '' digits; use sys.set_int_max_str_digits() to increase the limit'')
         else Inr (if neg then - int (digits_value b) else int (digits_value b)))"

text \<open>
  The bytes of a message, by what the two library calls make of them:
  \<^item> \<open>Undecodable reason\<close>: not UTF-8, \<^verbatim>\<open>payload.decode()\<close> raises;
  \<^item> \<open>Malformed text reason\<close>: decodes to \<open>text\<close>, which \<^verbatim>\<open>json.loads\<close> refuses;
  \<^item> \<open>Document text v\<close>: decodes to \<open>text\<close>, which \<^verbatim>\<open>json.loads\<close> reads as \<open>v\<close>.
\<close>

datatype payload =
    Undecodable string
  | Malformed string string
  | Document string json

record message =
  topic :: string
  payload :: payload

definition payload_decode :: "payload \<Rightarrow> exn + string" where
  "payload_decode p =
     (case p of
        Undecodable reason \<Rightarrow> Inl (UnicodeDecodeError, reason)
      | Malformed text _ \<Rightarrow> Inr text
      | Document text _ \<Rightarrow> Inr text)"

definition json_loads_payload :: "payload \<Rightarrow> exn + json" where
  "json_loads_payload p =
     (case p of
        Undecodable reason \<Rightarrow> Inl (UnicodeDecodeError, reason)
      | Malformed _ reason \<Rightarrow> Inl (JSONDecodeError, reason)
      | Document _ v \<Rightarrow> Inr v)"

text \<open>\<^verbatim>\<open>data[key]\<close> with a string key.\<close>

definition py_subscript :: "json \<Rightarrow> string \<Rightarrow> exn + json" where
  "py_subscript data key =
     (case data of
        JObj kvs \<Rightarrow>
          (case map_of kvs key of
             None \<Rightarrow> Inl (KeyError, py_repr key)
           | Some v \<Rightarrow> Inr v)
      | JArr _ \<Rightarrow> Inl (TypeError, ''list indices must be integers or slices, not str'')
      | JStr _ \<Rightarrow> Inl (TypeError, ''string indices must be integers, not '' @ quoted ''str'')
      | _ \<Rightarrow> Inl (TypeError, quoted (type_name data) @ '' object is not subscriptable''))"

section \<open>The database session\<close>

text \<open>
  \<^verbatim>\<open>db.session\<close> is scoped to the application context: each
  \<^verbatim>\<open>with app.app_context()\<close> block starts with a new session and removes it on exit.
  \<open>pending\<close> are the objects added and not yet flushed; \<open>inactive\<close> says that a
  flush failed and the session waits for \<^verbatim>\<open>rollback()\<close>.
\<close>

record session =
  pending :: "WaterLevel list"
  inactive :: bool

definition new_session :: session where
  "new_session = \<lparr>pending = [], inactive = False\<rparr>"

definition session_add :: "session \<Rightarrow> WaterLevel \<Rightarrow> session" where
  "session_add s obj = s\<lparr>pending := pending s @ [obj]\<rparr>"

definition session_rollback :: "session \<Rightarrow> session" where
  "session_rollback s = \<lparr>pending = [], inactive = False\<rparr>"

subsection \<open>The column types\<close>

text \<open>
  \<^verbatim>\<open>db.Integer\<close> is a 32-bit signed column of the PostgreSQL database the module is
  configured for: a value outside the range is refused.
\<close>

definition int32_ok :: "int \<Rightarrow> bool" where
  "int32_ok n = (- 2147483648 \<le> n \<and> n \<le> 2147483647)"

text \<open>
  \<^verbatim>\<open>db.Float\<close> is a double precision column. \<open>double_of_ratio p q\<close> is the double
  nearest to \<open>p / q\<close> for positive \<open>p\<close> and \<open>q\<close>, ties to the even mantissa, as
  mantissa and binary exponent without trailing zero bits; \<open>None\<close> when the value is
  beyond the largest double or rounds to zero.
\<close>

function bit_length :: "nat \<Rightarrow> nat" where
  "bit_length n = (if n = 0 then 0 else Suc (bit_length (n div 2)))"
  by pat_completeness auto
termination
  by (relation "measure (\<lambda>n. n)") auto

declare bit_length.simps [simp del]

function strip_zero_bits :: "nat \<Rightarrow> int \<Rightarrow> nat \<times> int" where
  "strip_zero_bits m e =
     (if m \<noteq> 0 \<and> even m then strip_zero_bits (m div 2) (e + 1) else (m, e))"
  by pat_completeness auto
termination
  by (relation "measure (\<lambda>(m, e). m)") auto

declare strip_zero_bits.simps [simp del]

definition scaled_quotient :: "nat \<Rightarrow> nat \<Rightarrow> int \<Rightarrow> nat \<times> nat" where
  "scaled_quotient p q e =
     (let num = (if e < 0 then p * 2 ^ nat (- e) else p);
          den = (if e < 0 then q else q * 2 ^ nat e);
          m = num div den;
          r = num mod den
      in (m, if den < 2 * r \<or> (2 * r = den \<and> odd m) then 1 else 0))"

definition double_of_ratio :: "nat \<Rightarrow> nat \<Rightarrow> (nat \<times> int) option" where
  "double_of_ratio p q =
     (let e0 = int (bit_length p) - int (bit_length q) - 53;
          e1 = (if 2 ^ 53 \<le> fst (scaled_quotient p q e0) then e0 + 1 else e0);
          e = max e1 (- 1074);
          (m, up) = scaled_quotient p q e;
          m' = m + up
      in if m' = 0 \<or> 1024 < int (bit_length m') + e then None
         else Some (strip_zero_bits m' e))"

text \<open>
  An integer level reaches the column as a number: up to \<open>2 ^ 53\<close> in magnitude it is
  stored as it is, beyond that as the nearest double.
\<close>

definition double_of_int :: "int \<Rightarrow> json option" where
  "double_of_int i =
     (if \<bar>i\<bar> \<le> 2 ^ 53 then Some (JFloat i 0)
      else (case double_of_ratio (nat \<bar>i\<bar>) 1 of
              None \<Rightarrow> None
            | Some (m, e) \<Rightarrow> Some (JFloat (if i < 0 then - int m else int m) e)))"

text \<open>
  A reader of decimal literals for \<open>db_float8in\<close>: white space, a sign, digits with an
  optional fraction, an optional exponent, white space; zero is \<open>JFloat 0 0\<close>.
\<close>

definition c_isspace :: "char \<Rightarrow> bool" where
  "c_isspace c = ((of_char c :: nat) \<in> set [0x09, 0x0A, 0x0B, 0x0C, 0x0D, 0x20])"

definition decimal_value :: "string \<Rightarrow> nat" where
  "decimal_value ds = foldl (\<lambda>acc c. 10 * acc + ((of_char c :: nat) - 48)) 0 ds"

definition read_exponent :: "string \<Rightarrow> int option" where
  "read_exponent s =
     (case s of
        [] \<Rightarrow> Some 0
      | c # cs \<Rightarrow>
          if c \<noteq> CHR ''e'' \<and> c \<noteq> CHR ''E'' then None
          else (let neg = (case cs of [] \<Rightarrow> False | d # _ \<Rightarrow> d = CHR ''-'');
                    ds = (case cs of
                            [] \<Rightarrow> []
                          | d # ds' \<Rightarrow> if d = CHR ''-'' \<or> d = CHR ''+'' then ds' else cs)
                in if ds = [] \<or> \<not> list_all is_digit ds then None
                   else Some (if neg then - int (decimal_value ds) else int (decimal_value ds))))"

definition pg_float8in :: "string \<Rightarrow> json option" where
  "pg_float8in s =
     (let t = rev (dropWhile c_isspace (rev (dropWhile c_isspace s)));
          neg = (case t of [] \<Rightarrow> False | c # _ \<Rightarrow> c = CHR ''-'');
          body = (case t of
                    [] \<Rightarrow> []
                  | c # cs \<Rightarrow> if c = CHR ''-'' \<or> c = CHR ''+'' then cs else t);
          whole = takeWhile is_digit body;
          after = dropWhile is_digit body;
          frac = (case after of
                    [] \<Rightarrow> []
                  | c # cs \<Rightarrow> if c = CHR ''.'' then takeWhile is_digit cs else []);
          tail = (case after of
                    [] \<Rightarrow> []
                  | c # cs \<Rightarrow> if c = CHR ''.'' then dropWhile is_digit cs else after)
      in if whole = [] \<and> frac = [] then None
         else (case read_exponent tail of
                 None \<Rightarrow> None
               | Some x \<Rightarrow>
                   (let d = decimal_value (whole @ frac);
                        x' = x - int (length frac);
                        p = (if x' < 0 then d else d * 10 ^ nat x');
                        q = (if x' < 0 then 10 ^ nat (- x') else 1)
                    in if d = 0 then Some (JFloat 0 0)
                       else (case double_of_ratio p q of
                               None \<Rightarrow> None
                             | Some (m, e) \<Rightarrow>
                                 Some (JFloat (if neg then - int m else int m) e)))))"

text \<open>
  What the column makes of the Python value it is handed: a number becomes a double, a
  string goes through the database's reader, \<^verbatim>\<open>None\<close> is \<^verbatim>\<open>NULL\<close> (the type
  takes it; the constraint below does not), and a boolean, a list or a dictionary is
  refused.
\<close>

definition float_column :: "world \<Rightarrow> json \<Rightarrow> exn + json" where
  "float_column w v =
     (case v of
        JNull \<Rightarrow> Inr JNull
      | JInt i \<Rightarrow>
          (case double_of_int i of
             None \<Rightarrow> Inl (DataError, ''value out of range for type double precision'')
           | Some d \<Rightarrow> Inr d)
      | JFloat m e \<Rightarrow> Inr (JFloat m e)
      | JStr s \<Rightarrow>
          (case db_float8in w s of
             None \<Rightarrow> Inl (DataError, ''invalid input syntax for type double precision'')
           | Some d \<Rightarrow> Inr d)
      | _ \<Rightarrow> Inl (ProgrammingError, ''value of type '' @ type_name v
                                     @ '' refused for a column of type double precision''))"

definition integer_column :: "int option \<Rightarrow> exn + int option" where
  "integer_column v =
     (case v of
        None \<Rightarrow> Inr None
      | Some n \<Rightarrow> if int32_ok n then Inr (Some n) else Inl (DataError, ''integer out of range''))"

subsection \<open>Insert, flush and commit\<close>

text \<open>
  One \<^verbatim>\<open>INSERT\<close> of a pending object, given the next value of the \<open>id\<close> sequence;
  the result comes with the next value of the sequence afterwards.
  \<^item> The values are fitted to the column types first. A value a type refuses ends the
    statement before it runs: the sequence is not touched.
  \<^item> Then the row is built with its defaults, \<open>id\<close> from the sequence and
    \<open>timestamp\<close> from \<^verbatim>\<open>db.func.now()\<close>, and only then \<^verbatim>\<open>nullable=False\<close> on
    \<open>tank_id\<close> and \<open>level_cm\<close> is checked: a row that fails it has used up its
    identifier, and a sequence does not take part in the rollback.
\<close>

definition insert_row :: "world \<Rightarrow> int \<Rightarrow> WaterLevel \<Rightarrow> (exn + WaterLevel) \<times> int" where
  "insert_row w next_id r =
     (case integer_column (tank_id r) of
        Inl e \<Rightarrow> (Inl e, next_id)
      | Inr tank \<Rightarrow>
          (case float_column w (level_cm r) of
             Inl e \<Rightarrow> (Inl e, next_id)
           | Inr lvl \<Rightarrow>
               (let ident = (case id r of None \<Rightarrow> next_id | Some i \<Rightarrow> i);
                    next_id' = (case id r of None \<Rightarrow> next_id + 1 | Some i \<Rightarrow> next_id);
                    stamp = (case timestamp r of None \<Rightarrow> db_now w | Some t \<Rightarrow> t)
                in if tank = None \<or> lvl = JNull then
                     (Inl (IntegrityError, ''null value violates not-null constraint''), next_id')
                   else (Inr \<lparr>id = Some ident, tank_id = tank, level_cm = lvl,
                              timestamp = Some stamp\<rparr>,
                         next_id'))))"

text \<open>The pending objects in order; the first statement that fails ends the flush.\<close>

fun flush :: "world \<Rightarrow> int \<Rightarrow> WaterLevel list \<Rightarrow> (exn + WaterLevel list) \<times> int" where
  "flush w next_id [] = (Inr [], next_id)"
| "flush w next_id (r # rs) =
     (case insert_row w next_id r of
        (Inl e, n) \<Rightarrow> (Inl e, n)
      | (Inr r', n) \<Rightarrow>
          (case flush w n rs of
             (Inl e, n') \<Rightarrow> (Inl e, n')
           | (Inr rs', n') \<Rightarrow> (Inr (r' # rs'), n')))"

text \<open>
  \<^verbatim>\<open>db.session.commit()\<close>: flushes the pending objects in one transaction and commits
  it. When a statement fails no row reaches the table and the session is left
  inactive; the sequence keeps the values the transaction has used.
\<close>

definition session_commit :: "world \<Rightarrow> session \<Rightarrow> (exn + unit) \<times> world \<times> session" where
  "session_commit w s =
     (case db_down w of
        Some text \<Rightarrow> (Inl (OperationalError, text), w, s\<lparr>inactive := True\<rparr>)
      | None \<Rightarrow>
          (case flush w (db_seq w) (pending s) of
             (Inl e, n) \<Rightarrow> (Inl e, w\<lparr>db_seq := n\<rparr>, s\<lparr>inactive := True\<rparr>)
           | (Inr rows, n) \<Rightarrow>
               (Inr (), w\<lparr>db_rows := db_rows w @ rows, db_seq := n\<rparr>, s\<lparr>pending := []\<rparr>)))"

section \<open>The broker callbacks\<close>

definition handle_connect :: "world \<Rightarrow> int \<Rightarrow> world" where
  "handle_connect w rc =
     (if rc = 0 then
        w\<lparr>stdout := stdout w @ [LogConnected],
           mqtt_subscribed := mqtt_subscribed w
                              @ [''sensor/tank/+/water_level'', ''sensor/gate/+/status'']\<rparr>
      else w\<lparr>stdout := stdout w @ [LogConnectFailed rc]\<rparr>)"

text \<open>
  The \<^verbatim>\<open>try\<close> block of \<^verbatim>\<open>handle_mqtt_message\<close>, statement by statement. The
  result is \<open>Inl e\<close> when a statement raised \<open>e\<close>, together with the world and the
  session as they were at that point. The \<^verbatim>\<open>and\<close> of the topic test evaluates its
  second operand only when the first holds.
\<close>

definition try_block :: "world \<Rightarrow> message \<Rightarrow> session \<Rightarrow> (exn + unit) \<times> world \<times> session" where
  "try_block w m s =
     (let topic_parts = split_on CHR ''/'' (topic m) in
      case json_loads_payload (payload m) of
        Inl e \<Rightarrow> (Inl e, w, s)
      | Inr data \<Rightarrow>
      (case py_index topic_parts 1 of
        Inl e \<Rightarrow> (Inl e, w, s)
      | Inr part1 \<Rightarrow>
      if part1 \<noteq> ''tank'' then (Inr (), w, s) else
      (case py_index topic_parts 3 of
        Inl e \<Rightarrow> (Inl e, w, s)
      | Inr part3 \<Rightarrow>
      if part3 \<noteq> ''water_level'' then (Inr (), w, s) else
      (case py_index topic_parts 2 of
        Inl e \<Rightarrow> (Inl e, w, s)
      | Inr tank \<Rightarrow>
      (case py_int tank of
        Inl e \<Rightarrow> (Inl e, w, s)
      | Inr tank_int \<Rightarrow>
      (case py_subscript data ''level'' of
        Inl e \<Rightarrow> (Inl e, w, s)
      | Inr lvl \<Rightarrow>
      (let level = \<lparr>id = None, tank_id = Some tank_int, level_cm = lvl, timestamp = None\<rparr>;
           s1 = session_add s level
       in case session_commit w s1 of
            (Inl e, w2, s2) \<Rightarrow> (Inl e, w2, s2)
          | (Inr _, w2, s2) \<Rightarrow>
              (Inr (), w2\<lparr>stdout := stdout w2 @ [LogDb tank lvl]\<rparr>, s2))))))))"

text \<open>
  The \<^verbatim>\<open>try ... except Exception\<close> statement inside the application context. The
  handler of the exception rolls the session back, prints the error, and prints the
  payload, which it decodes a second time.
\<close>

definition handle_in_context ::
  "world \<Rightarrow> message \<Rightarrow> session \<Rightarrow> (exn + unit) \<times> world \<times> session" where
  "handle_in_context w m s =
     (case try_block w m s of
        (Inr u, w1, s1) \<Rightarrow> (Inr u, w1, s1)
      | (Inl e, w1, s1) \<Rightarrow>
          (let s2 = session_rollback s1;
               w2 = w1\<lparr>stdout := stdout w1 @ [LogError e]\<rparr>
           in case payload_decode (payload m) of
                Inl e' \<Rightarrow> (Inl e', w2, s2)
              | Inr text \<Rightarrow> (Inr (), w2\<lparr>stdout := stdout w2 @ [LogFailedPayload text]\<rparr>, s2)))"

text \<open>
  \<^verbatim>\<open>handle_mqtt_message(client, userdata, message)\<close>: the statement above in a new
  application context. \<open>Inl e\<close> is an exception that leaves the callback.
\<close>

definition handle_mqtt_message :: "world \<Rightarrow> message \<Rightarrow> (exn + unit) \<times> world" where
  "handle_mqtt_message w m =
     (case handle_in_context w m new_session of (r, w', s') \<Rightarrow> (r, w'))"

section \<open>The read endpoints\<close>

text \<open>\<^verbatim>\<open>db.session.execute(db.select(1))\<close>: succeeds exactly when the server answers.\<close>

definition execute_select_1 :: "world \<Rightarrow> exn + unit" where
  "execute_select_1 w =
     (case db_down w of
        Some text \<Rightarrow> Inl (OperationalError, text)
      | None \<Rightarrow> Inr ())"

text \<open>
  \<^verbatim>\<open>home()\<close>. The two variables start as \<^verbatim>\<open>"error"\<close> and \<^verbatim>\<open>None\<close>;
  \<^verbatim>\<open>if db_error:\<close> is a truth test, so it holds for a text that is not empty.
  \<^verbatim>\<open>jsonify(response)\<close> is a response of status 200.
\<close>

definition home :: "world \<Rightarrow> response" where
  "home w =
     (let (db_status, db_error) =
            (case execute_select_1 w of
               Inr _ \<Rightarrow> (''ok'', None)
             | Inl e \<Rightarrow> (''error'', Some (str_exn e)));
          response = [(''status'', JStr ''Eelytics API is Live''),
                      (''mqtt_status'', JBool (mqtt_connected w)),
                      (''db_status'', JStr db_status)];
          response' = (case db_error of
                         None \<Rightarrow> response
                       | Some text \<Rightarrow>
                           if text \<noteq> [] then response @ [(''db_error_message'', JStr text)]
                           else response)
      in (200, JObj response'))"

text \<open>
  \<^verbatim>\<open>ORDER BY timestamp DESC\<close>, as a stable insertion sort. \<open>newer_eq a b\<close> says that
  \<open>a\<close> may stand before \<open>b\<close>; a row without timestamp sorts before every other, as
  in PostgreSQL.
\<close>

definition newer_eq :: "WaterLevel \<Rightarrow> WaterLevel \<Rightarrow> bool" where
  "newer_eq a b =
     (case timestamp a of
        None \<Rightarrow> True
      | Some x \<Rightarrow> (case timestamp b of None \<Rightarrow> False | Some y \<Rightarrow> dt_key y \<le> dt_key x))"

fun insert_desc :: "WaterLevel \<Rightarrow> WaterLevel list \<Rightarrow> WaterLevel list" where
  "insert_desc r [] = [r]"
| "insert_desc r (x # xs) = (if newer_eq r x then r # x # xs else x # insert_desc r xs)"

definition order_by_timestamp_desc :: "WaterLevel list \<Rightarrow> WaterLevel list" where
  "order_by_timestamp_desc rows = foldr insert_desc rows []"

definition json_of_int_option :: "int option \<Rightarrow> json" where
  "json_of_int_option v = (case v of None \<Rightarrow> JNull | Some i \<Rightarrow> JInt i)"

text \<open>The dictionary built for one row; \<^verbatim>\<open>level.timestamp.isoformat()\<close> needs a timestamp.\<close>

definition level_dict :: "WaterLevel \<Rightarrow> exn + json" where
  "level_dict level =
     (case timestamp level of
        None \<Rightarrow> Inl (AttributeError,
                     quoted ''NoneType'' @ '' object has no attribute '' @ quoted ''isoformat'')
      | Some t \<Rightarrow>
          Inr (JObj [(''id'', json_of_int_option (id level)),
                     (''tank_id'', json_of_int_option (tank_id level)),
                     (''level_cm'', level_cm level),
                     (''timestamp'', JStr (isoformat t))]))"

text \<open>A list comprehension: the first element that raises ends it.\<close>

fun comprehension :: "('a \<Rightarrow> exn + 'b) \<Rightarrow> 'a list \<Rightarrow> exn + 'b list" where
  "comprehension f [] = Inr []"
| "comprehension f (x # xs) =
     (case f x of
        Inl e \<Rightarrow> Inl e
      | Inr y \<Rightarrow> (case comprehension f xs of Inl e \<Rightarrow> Inl e | Inr ys \<Rightarrow> Inr (y # ys)))"

text \<open>
  \<^verbatim>\<open>get_levels()\<close>. There is no \<^verbatim>\<open>try\<close> here: an exception leaves the view
  (\<open>Inl\<close>).
\<close>

definition get_levels :: "world \<Rightarrow> exn + response" where
  "get_levels w =
     (case db_down w of
        Some text \<Rightarrow> Inl (OperationalError, text)
      | None \<Rightarrow>
          (let levels = order_by_timestamp_desc (db_rows w) in
           case comprehension level_dict levels of
             Inl e \<Rightarrow> Inl e
           | Inr levels_list \<Rightarrow> Inr (200, JArr levels_list)))"

section \<open>The system as a whole\<close>

text \<open>
  Everything the module can be asked to do: the two broker callbacks, the three routes
  and the publishing helper. \<open>step\<close> is the effect of one of them on the world.
\<close>

datatype operation =
    OnConnect int
  | OnMessage message
  | GetHome
  | GetLevels
  | PostCommandGate int "exn + json"
  | SendGateCommand int string

fun step :: "world \<Rightarrow> operation \<Rightarrow> world" where
  "step w (OnConnect rc) = handle_connect w rc"
| "step w (OnMessage m) = snd (handle_mqtt_message w m)"
| "step w GetHome = w"
| "step w GetLevels = w"
| "step w (PostCommandGate tank body) = snd (api_command_gate w tank body)"
| "step w (SendGateCommand tank command) =
     (case send_gate_command w tank command of Inl e \<Rightarrow> w | Inr w' \<Rightarrow> w')"

definition run :: "world \<Rightarrow> operation list \<Rightarrow> world" where
  "run w ops = foldl step w ops"

section \<open>Sample worlds and messages\<close>

text \<open>
  A world with an empty table, the same world with the database server down, and a
  table of two readings, \<open>12.0\<close> and \<open>12.5\<close>.
\<close>

definition example_time :: datetime where
  "example_time =
     \<lparr>year = 2024, month = 1, day = 2, hour = 3, minute = 4, second = 5, microsecond = 0\<rparr>"

definition later_time :: datetime where
  "later_time =
     \<lparr>year = 2024, month = 1, day = 2, hour = 3, minute = 5, second = 0, microsecond = 250000\<rparr>"

definition example_world :: world where
  "example_world =
     \<lparr>db_rows = [], db_seq = 1, db_down = None,
      db_float8in = pg_float8in,
      db_now = example_time,
      mqtt_connected = True, mqtt_subscribed = [], mqtt_published = [], stdout = []\<rparr>"

definition down_world :: world where
  "down_world = example_world\<lparr>db_down := Some ''connection refused''\<rparr>"

definition stocked_world :: world where
  "stocked_world =
     example_world
       \<lparr>db_rows := [\<lparr>id = Some 1, tank_id = Some 5, level_cm = JFloat 12 0,
                      timestamp = Some example_time\<rparr>,
                    \<lparr>id = Some 2, tank_id = Some 7, level_cm = JFloat 25 (- 1),
                      timestamp = Some later_time\<rparr>],
        db_seq := 3\<rparr>"

definition level_message :: message where
  "level_message =
     \<lparr>topic = ''sensor/tank/5/water_level'',
      payload = Document ''{\"level\": 12}'' (JObj [(''level'', JInt 12)])\<rparr>"

definition bad_id_message :: message where
  "bad_id_message =
     \<lparr>topic = ''sensor/tank/abc/water_level'',
      payload = Document ''{\"level\": 12}'' (JObj [(''level'', JInt 12)])\<rparr>"


definition text_level_message :: message where
  "text_level_message =
     \<lparr>topic = ''sensor/tank/5/water_level'',
      payload = Document ''{\"level\": \"12.5\"}'' (JObj [(''level'', JStr ''12.5'')])\<rparr>"

definition null_level_message :: message where
  "null_level_message =
     \<lparr>topic = ''sensor/tank/5/water_level'',
      payload = Document ''{\"level\": null}'' (JObj [(''level'', JNull)])\<rparr>"

section \<open>Facts about the helpers\<close>

lemma split_on_not_Nil [simp]: "split_on sep s \<noteq> []"
  by (induction s) (auto split: list.splits)

lemma split_on_no_sep: "sep \<notin> set s \<Longrightarrow> split_on sep s = [s]"
  by (induction s) auto

lemma split_on_append: "sep \<notin> set a \<Longrightarrow> split_on sep (a @ sep # b) = a # split_on sep b"
  by (induction a) auto

lemma level_topic_parts:
  assumes "CHR ''/'' \<notin> set seg"
  shows "split_on CHR ''/'' (''sensor/tank/'' @ seg @ ''/water_level'') =
           [''sensor'', ''tank'', seg, ''water_level'']"
proof -
  have "split_on CHR ''/'' (seg @ CHR ''/'' # ''water_level'') = [seg, ''water_level'']"
    using assms by (simp add: split_on_append)
  then show ?thesis by simp
qed

lemma py_int_5: "py_int ''5'' = Inr 5"
  by (simp add: py_int_def strip_def py_isspace_def digits_ok_def is_digit_def digits_value_def
      max_str_digits_def Let_def)

lemma py_int_abc:
  "py_int ''abc'' = Inl (ValueError, ''invalid literal for int() with base 10: 'abc'' @ [CHR 0x27])"
  by (simp add: py_int_def strip_def py_isspace_def digits_ok_def is_digit_def Let_def
      py_repr_def repr_char_def py_printable_def)

subsection \<open>What \<^verbatim>\<open>int\<close> reads\<close>





lemma strip_digits:
  assumes "s \<noteq> []" and "list_all is_digit s"
  shows "strip s = s"
proof -
  have ns: "\<And>c. is_digit c \<Longrightarrow> \<not> py_isspace c"
    by (auto simp: is_digit_def py_isspace_def)
  have a: "dropWhile py_isspace s = s"
    using assms ns by (cases s) auto
  have "rev s \<noteq> []" "list_all is_digit (rev s)"
    using assms by (simp_all add: list_all_iff)
  then have "dropWhile py_isspace (rev s) = rev s"
    using ns by (cases "rev s") auto
  with a show ?thesis by (simp add: strip_def)
qed

lemma no_double_underscore_digits: "list_all is_digit s \<Longrightarrow> no_double_underscore s"
  by (induction s rule: no_double_underscore.induct) (auto simp: is_digit_def)

text \<open>Every string of one to 4300 decimal digits is read, as the number it writes.\<close>

lemma py_int_digits:
  assumes "s \<noteq> []" and "list_all is_digit s" and "length s \<le> 4300"
  shows "py_int s = Inr (int (digits_value s))"
proof -
  obtain c cs where s: "s = c # cs" using assms(1) by (cases s) auto
  have c: "is_digit c" using assms(2) s by simp
  then have sign: "c \<noteq> CHR ''-''" "c \<noteq> CHR ''+''" by (auto simp: is_digit_def)
  have l: "is_digit (last s)" using assms(1,2) by (simp add: list_all_iff)
  have ok: "digits_ok s"
    using assms(2) c l s no_double_underscore_digits [OF assms(2)]
    by (auto simp: digits_ok_def list_all_iff)
  have f: "filter is_digit s = s" using assms(2) by (simp add: list_all_iff)
  show ?thesis
    using ok f assms(3) sign
    by (simp add: py_int_def Let_def strip_digits [OF assms(1,2)] s [symmetric] max_str_digits_def)
       (simp add: s sign)
qed


subsection \<open>The \<^verbatim>\<open>try\<close> block and the commit\<close>

text \<open>On a level topic with a payload that parses, the \<^verbatim>\<open>try\<close> block comes down to the
  conversion of the identifier, the lookup of the level and the commit.\<close>

lemma try_block_level_topic:
  assumes "split_on CHR ''/'' (topic m) = p0 # ''tank'' # seg # ''water_level'' # rest"
    and "json_loads_payload (payload m) = Inr data"
  shows "try_block w m s =
     (case py_int seg of
        Inl e \<Rightarrow> (Inl e, w, s)
      | Inr n \<Rightarrow>
         (case py_subscript data ''level'' of
            Inl e \<Rightarrow> (Inl e, w, s)
          | Inr lvl \<Rightarrow>
             (case session_commit w (session_add s
                      \<lparr>id = None, tank_id = Some n, level_cm = lvl, timestamp = None\<rparr>) of
                (Inl e, w2, s2) \<Rightarrow> (Inl e, w2, s2)
              | (Inr _, w2, s2) \<Rightarrow> (Inr (), w2\<lparr>stdout := stdout w2 @ [LogDb seg lvl]\<rparr>, s2))))"
  using assms by (simp add: try_block_def py_index_def Let_def split: sum.splits)


lemma session_commit_raises:
  "session_commit w s = (Inl e, w1, s1) \<Longrightarrow>
     (\<exists>n. w1 = w\<lparr>db_seq := n\<rparr>) \<and> s1 = s\<lparr>inactive := True\<rparr>"
  by (auto simp: session_commit_def split: option.splits sum.splits prod.splits
      intro: exI [of _ "db_seq w"])

lemma try_block_raises:
  assumes "try_block w m s = (Inl e, w1, s1)"
  shows "\<exists>n. w1 = w\<lparr>db_seq := n\<rparr>"
    and "s1 \<noteq> s \<Longrightarrow> \<exists>t v. payload m = Document t v"
  using assms
  by (auto simp: try_block_def Let_def json_loads_payload_def
      split: sum.splits if_splits prod.splits payload.splits dest!: session_commit_raises
      intro: exI [of _ "db_seq w"])

lemma payload_decode_Document: "payload_decode (Document t v) = Inr t"
  by (simp add: payload_decode_def)

lemma insert_row_row:
  "insert_row w n r = (Inr r', n') \<Longrightarrow>
     tank_id r' \<noteq> None \<and> level_cm r' \<noteq> JNull \<and> timestamp r' \<noteq> None"
  by (auto simp: insert_row_def Let_def split: sum.splits if_splits)

lemma flush_rows:
  "flush w n ps = (Inr rows, n') \<Longrightarrow>
     list_all (\<lambda>r. tank_id r \<noteq> None \<and> level_cm r \<noteq> JNull \<and> timestamp r \<noteq> None) rows"
proof (induction ps arbitrary: n rows n')
  case Nil
  then show ?case by simp
next
  case (Cons p ps)
  then show ?case
    by (auto split: sum.splits prod.splits dest: insert_row_row)
qed

lemma session_commit_rows:
  "session_commit w s = (r, w1, s1) \<Longrightarrow>
     \<exists>new. db_rows w1 = db_rows w @ new
       \<and> list_all (\<lambda>r. tank_id r \<noteq> None \<and> level_cm r \<noteq> JNull \<and> timestamp r \<noteq> None) new"
  by (auto simp: session_commit_def split: option.splits sum.splits prod.splits dest: flush_rows)

lemma try_block_rows:
  "try_block w m s = (r, w1, s1) \<Longrightarrow>
     \<exists>new. db_rows w1 = db_rows w @ new
       \<and> list_all (\<lambda>r. tank_id r \<noteq> None \<and> level_cm r \<noteq> JNull \<and> timestamp r \<noteq> None) new"
  by (auto simp: try_block_def Let_def split: sum.splits if_splits prod.splits
      dest!: session_commit_rows)

lemma handle_mqtt_message_rows:
  "\<exists>new. db_rows (snd (handle_mqtt_message w m)) = db_rows w @ new
       \<and> list_all (\<lambda>r. tank_id r \<noteq> None \<and> level_cm r \<noteq> JNull \<and> timestamp r \<noteq> None) new"
proof -
  obtain r w1 s1 where t: "try_block w m new_session = (r, w1, s1)"
    by (cases "try_block w m new_session") auto
  from try_block_rows [OF t] show ?thesis
    using t by (auto simp: handle_mqtt_message_def handle_in_context_def Let_def
        split: sum.splits prod.splits)
qed

lemma step_rows:
  "\<exists>new. db_rows (step w op) = db_rows w @ new
       \<and> list_all (\<lambda>r. tank_id r \<noteq> None \<and> level_cm r \<noteq> JNull \<and> timestamp r \<noteq> None) new"
proof (cases op)
  case (OnMessage m)
  then show ?thesis using handle_mqtt_message_rows [of w m] by simp
next
  case (PostCommandGate t b)
  then show ?thesis
    by (auto simp: api_command_gate_def send_gate_command_def Let_def error_500_def
        split: sum.splits json.splits)
qed (auto simp: handle_connect_def send_gate_command_def Let_def split: sum.splits)

lemma run_rows:
  "\<exists>new. db_rows (run w ops) = db_rows w @ new
       \<and> list_all (\<lambda>r. tank_id r \<noteq> None \<and> level_cm r \<noteq> JNull \<and> timestamp r \<noteq> None) new"
  unfolding run_def
proof (induction ops arbitrary: w)
  case Nil
  then show ?case by simp
next
  case (Cons op ops)
  from step_rows [of w op] obtain a where a: "db_rows (step w op) = db_rows w @ a"
    "list_all (\<lambda>r. tank_id r \<noteq> None \<and> level_cm r \<noteq> JNull \<and> timestamp r \<noteq> None) a"
    by blast
  from Cons.IH [of "step w op"] obtain b
    where b: "db_rows (foldl step (step w op) ops) = db_rows (step w op) @ b"
    "list_all (\<lambda>r. tank_id r \<noteq> None \<and> level_cm r \<noteq> JNull \<and> timestamp r \<noteq> None) b"
    by blast
  show ?case
    using a b by (intro exI [of _ "a @ b"]) simp
qed

subsection \<open>Payloads the handler cannot use\<close>

text \<open>
  A payload that decodes as text and is not JSON, a document without a \<^verbatim>\<open>level\<close>,
  and a level the database refuses: nothing is persisted and the handler returns
  normally.
\<close>

lemma malformed_payload_is_dropped:
  assumes "payload m = Malformed t reason"
  shows "handle_mqtt_message w m =
     (Inr (), w\<lparr>stdout := stdout w @ [LogError (JSONDecodeError, reason), LogFailedPayload t]\<rparr>)"
  using assms
  by (simp add: handle_mqtt_message_def handle_in_context_def try_block_def
      json_loads_payload_def payload_decode_def)

lemma missing_level_is_dropped:
  assumes "payload m = Document t data" and "py_subscript data ''level'' = Inl e"
  shows "fst (handle_mqtt_message w m) = Inr ()
       \<and> db_rows (snd (handle_mqtt_message w m)) = db_rows w"
  using assms
  by (auto simp: handle_mqtt_message_def handle_in_context_def try_block_def Let_def
      json_loads_payload_def payload_decode_def split: sum.splits prod.splits)

lemma refused_level_is_dropped:
  assumes "payload m = Document t data" and "py_subscript data ''level'' = Inr lvl"
    and "float_column w lvl = Inl e"
  shows "fst (handle_mqtt_message w m) = Inr ()
       \<and> db_rows (snd (handle_mqtt_message w m)) = db_rows w"
  using assms
  by (auto simp: handle_mqtt_message_def handle_in_context_def try_block_def Let_def
      json_loads_payload_def payload_decode_def session_commit_def session_add_def
      new_session_def insert_row_def split: sum.splits prod.splits option.splits)

subsection \<open>The text of a command\<close>

lemma json_escape_plain: "plain_char c \<Longrightarrow> json_escape c = [c]"
  by (auto simp: plain_char_def json_escape_def Let_def)

lemma concat_escape_plain: "list_all plain_char s \<Longrightarrow> concat (map json_escape s) = s"
  by (induction s) (simp_all add: json_escape_plain)

text \<open>For a command of plain characters the payload is the command between the fixed
  parts of the object.\<close>

lemma json_dumps_action_plain:
  "list_all plain_char c \<Longrightarrow> json_dumps_action c = ''{\"action\": \"'' @ c @ ''\"}''"
  by (simp add: json_dumps_action_def json_dumps_str_def concat_escape_plain json_escape_def)

text \<open>\<open>str_nat\<close> writes the decimal numeral of its argument: digits only, no leading
  zero, and the digits have the argument as their value.\<close>

lemma below_10_cases:
  "d < 10 \<Longrightarrow> d = 0 \<or> d = 1 \<or> d = 2 \<or> d = 3 \<or> d = 4 \<or> d = 5 \<or> d = 6 \<or> d = 7 \<or> d = 8 \<or> d = (9::nat)"
  by arith

lemma below_16_cases:
  "d < 16 \<Longrightarrow> d = 0 \<or> d = 1 \<or> d = 2 \<or> d = 3 \<or> d = 4 \<or> d = 5 \<or> d = 6 \<or> d = 7 \<or> d = 8 \<or> d = 9
     \<or> d = 10 \<or> d = 11 \<or> d = 12 \<or> d = 13 \<or> d = 14 \<or> d = (15::nat)"
  by arith

lemma digit_char_decimal:
  assumes "d < 10"
  shows "is_digit (digit_char d) \<and> (of_char (digit_char d) :: nat) - 48 = d
       \<and> (digit_char d = CHR ''0'' \<longrightarrow> d = 0)"
  using below_10_cases [OF assms]
  by (elim disjE) (simp_all add: digit_char_def is_digit_def)

lemma hex_value_digit_char:
  assumes "d < 16"
  shows "hex_value (digit_char d) = Some d"
  using below_16_cases [OF assms]
  by (elim disjE) (simp_all add: digit_char_def hex_value_def)

lemma str_nat_digits: "str_nat n \<noteq> [] \<and> list_all is_digit (str_nat n)"
proof (induction n rule: str_nat.induct)
  case (1 n)
  show ?case
  proof (cases "n < 10")
    case True
    then show ?thesis
      by (subst (1 2) str_nat.simps) (simp add: digit_char_decimal)
  next
    case False
    then have "n mod 10 < 10" by simp
    with False 1 show ?thesis
      by (subst (1 2) str_nat.simps) (simp add: digit_char_decimal)
  qed
qed

lemma digits_value_snoc:
  "is_digit c \<Longrightarrow> digits_value (ds @ [c]) = 10 * digits_value ds + ((of_char c :: nat) - 48)"
  by (simp add: digits_value_def)

lemma digits_value_str_nat: "digits_value (str_nat n) = n"
proof (induction n rule: str_nat.induct)
  case (1 n)
  show ?case
  proof (cases "n < 10")
    case True
    then show ?thesis
      by (subst str_nat.simps) (simp add: digits_value_def digit_char_decimal)
  next
    case False
    then have d: "n mod 10 < 10" by simp
    have "digits_value (str_nat (n div 10) @ [digit_char (n mod 10)]) = 10 * (n div 10) + n mod 10"
      using 1 False digit_char_decimal [OF d] by (simp add: digits_value_snoc)
    with False show ?thesis
      by (subst str_nat.simps) simp
  qed
qed

lemma hd_str_nat: "hd (str_nat n) = CHR ''0'' \<Longrightarrow> n = 0"
proof (induction n rule: str_nat.induct)
  case (1 n)
  show ?case
  proof (cases "n < 10")
    case True
    with "1.prems" show ?thesis
      using digit_char_decimal [OF True] by (subst (asm) str_nat.simps) simp
  next
    case False
    have ne: "str_nat (n div 10) \<noteq> []" using str_nat_digits by blast
    from "1.prems" False have "hd (str_nat (n div 10)) = CHR ''0''"
      using ne by (subst (asm) str_nat.simps) simp
    with 1 False have "n div 10 = 0" by simp
    with False show ?thesis by simp
  qed
qed

lemma str_nat_0: "str_nat 0 = ''0''"
  by (simp add: str_nat.simps digit_char_def)

lemma char_of_code: "(of_char c :: nat) = n \<Longrightarrow> c = char_of n"
  by auto

lemma of_char_below_256: "(of_char c :: nat) < 256"
  by (cases c) (simp add: of_char_Char)

text \<open>Read back from the JSON grammar, every payload of a command is the object with
  the key \<^verbatim>\<open>action\<close> and the command itself, whatever characters the command holds.\<close>

lemma char_eqI: "(of_char c :: nat) = of_char d \<Longrightarrow> c = d"
  by simp

lemma read_string_escape:
  assumes "after \<noteq> []"
  shows "read_string (json_escape c @ after) = prepend c (read_string after)"
proof -
  obtain e cs where after: "after = e # cs" using assms by (cases after) auto
  define n where "n = (of_char c :: nat)"
  have c: "c = char_of n" by (simp add: n_def)
  have n256: "n < 256" by (simp add: n_def of_char_below_256)
  consider "n = 0x5C" | "n = 0x22" | "n = 0x08" | "n = 0x0C" | "n = 0x0A" | "n = 0x0D" | "n = 0x09"
    | "n \<noteq> 0x5C" "n \<noteq> 0x22" "0x20 \<le> n" "n \<le> 0x7E"
    | "n \<noteq> 0x08" "n \<noteq> 0x0C" "n \<noteq> 0x0A" "n \<noteq> 0x0D" "n \<noteq> 0x09" "n < 0x20 \<or> 0x7E < n"
    by linarith
  then show ?thesis
  proof cases
    case 8
    then have "json_escape c = [c]"
      by (simp add: json_escape_def n_def [symmetric])
    moreover have "c \<noteq> CHR 0x22" "c \<noteq> CHR 0x5C" using 8 by (auto simp: n_def)
    moreover have "\<not> (of_char c :: nat) < 0x20" using 8 by (simp add: n_def)
    ultimately show ?thesis by (simp add: after)
  next
    case 9
    have d1: "n div 16 < 16" using n256 by simp
    have d0: "n mod 16 < 16" by simp
    have esc: "json_escape c = [CHR 0x5C, CHR ''u'', CHR ''0'', CHR ''0'', digit_char (n div 16), digit_char (n mod 16)]"
      using 9 by (auto simp: json_escape_def n_def [symmetric])
    have "hex4_value CHR ''0'' CHR ''0'' (digit_char (n div 16)) (digit_char (n mod 16)) = Some n"
      by (simp add: hex4_value_def hex_value_digit_char [OF d1] hex_value_digit_char [OF d0])
         (simp add: hex_value_def)
    then show ?thesis
      using n256 by (simp add: esc after c [symmetric])
  next
    case 1
    have "c = CHR 0x5C" by (rule char_eqI) (simp add: n_def [symmetric] 1)
    then show ?thesis by (simp add: json_escape_def after simple_escape_def)
  next
    case 2
    have "c = CHR 0x22" by (rule char_eqI) (simp add: n_def [symmetric] 2)
    then show ?thesis by (simp add: json_escape_def after simple_escape_def)
  next
    case 3
    have "c = CHR 0x08" by (rule char_eqI) (simp add: n_def [symmetric] 3)
    then show ?thesis by (simp add: json_escape_def after simple_escape_def)
  next
    case 4
    have "c = CHR 0x0C" by (rule char_eqI) (simp add: n_def [symmetric] 4)
    then show ?thesis by (simp add: json_escape_def after simple_escape_def)
  next
    case 5
    have "c = CHR 0x0A" by (rule char_eqI) (simp add: n_def [symmetric] 5)
    then show ?thesis by (simp add: json_escape_def after simple_escape_def)
  next
    case 6
    have "c = CHR 0x0D" by (rule char_eqI) (simp add: n_def [symmetric] 6)
    then show ?thesis by (simp add: json_escape_def after simple_escape_def)
  next
    case 7
    have "c = CHR 0x09" by (rule char_eqI) (simp add: n_def [symmetric] 7)
    then show ?thesis by (simp add: json_escape_def after simple_escape_def)
  qed
qed

lemma read_string_dumps:
  "read_string (concat (map json_escape s) @ CHR 0x22 # rest) = Some (s, rest)"
proof (induction s)
  case Nil
  then show ?case by (cases rest) simp_all
next
  case (Cons c s)
  have "read_string (json_escape c @ (concat (map json_escape s) @ CHR 0x22 # rest)) =
          prepend c (read_string (concat (map json_escape s) @ CHR 0x22 # rest))"
    by (rule read_string_escape) simp
  with Cons show ?case by (simp add: prepend_def)
qed

lemma read_action_dumps: "read_action (json_dumps_action c) = Some c"
proof -
  have form: "json_dumps_action c =
      CHR ''{'' # CHR 0x22 # ''action'' @ CHR 0x22 # '': '' @ CHR 0x22
        # concat (map json_escape c) @ CHR 0x22 # ''}''"
    by (simp add: json_dumps_action_def json_dumps_str_def json_escape_def)
  have v: "read_string (concat (map json_escape c) @ CHR 0x22 # ''}'') = Some (c, ''}'')"
    by (rule read_string_dumps)
  show ?thesis
    using v by (simp add: form read_action_def prepend_def)
qed

subsection \<open>The descending sort\<close>

lemma newer_eq_total: "\<not> newer_eq a b \<Longrightarrow> newer_eq b a"
  by (auto simp: newer_eq_def split: option.splits)

lemma newer_eq_trans: "newer_eq a b \<Longrightarrow> newer_eq b c \<Longrightarrow> newer_eq a c"
  by (auto simp: newer_eq_def split: option.splits)

lemma mset_insert_desc: "mset (insert_desc r xs) = add_mset r (mset xs)"
  by (induction xs) auto

lemma set_insert_desc: "set (insert_desc r xs) = insert r (set xs)"
  by (induction xs) auto

lemma sorted_insert_desc:
  "sorted_wrt newer_eq xs \<Longrightarrow> sorted_wrt newer_eq (insert_desc r xs)"
proof (induction xs)
  case Nil
  then show ?case by simp
next
  case (Cons x xs)
  show ?case
  proof (cases "newer_eq r x")
    case True
    then have "\<forall>y\<in>set xs. newer_eq r y"
      using Cons.prems by (auto intro: newer_eq_trans)
    with True Cons.prems show ?thesis by simp
  next
    case False
    then have "newer_eq x r" by (rule newer_eq_total)
    with False Cons show ?thesis by (auto simp: set_insert_desc)
  qed
qed

lemma mset_order_by: "mset (order_by_timestamp_desc rows) = mset rows"
  by (induction rows) (simp_all add: order_by_timestamp_desc_def mset_insert_desc)

lemma sorted_order_by: "sorted_wrt newer_eq (order_by_timestamp_desc rows)"
  by (induction rows) (simp_all add: order_by_timestamp_desc_def sorted_insert_desc)

lemma comprehension_level_dict:
  "list_all (\<lambda>r. timestamp r \<noteq> None) rows \<Longrightarrow>
     comprehension level_dict rows =
       Inr (map (\<lambda>r. JObj [(''id'', json_of_int_option (id r)),
                            (''tank_id'', json_of_int_option (tank_id r)),
                            (''level_cm'', level_cm r),
                            (''timestamp'', JStr (isoformat (the (timestamp r))))]) rows)"
  by (induction rows) (auto simp: level_dict_def)

subsection \<open>The unbound name\<close>

lemma load_global_request:
  "load_global ''request'' = Inl (NameError, ''name 'request' is not defined'')"
  by (simp add: load_global_def module_globals_def quoted_def)

text \<open>\<^verbatim>\<open>request\<close> is never imported, so every call of the view ends in its
  \<^verbatim>\<open>except\<close> branch, whatever the body.\<close>

lemma api_command_gate_name_error:
  "api_command_gate w tank body =
     ((500, JObj [(''error'', JStr ''name 'request' is not defined'')]), w)"
  by (simp add: api_command_gate_def load_global_request error_500_def str_exn_def)

subsection \<open>The sample worlds, evaluated\<close>

lemma level_message_try_block_down:
  "try_block down_world level_message new_session =
     (Inl (OperationalError, ''connection refused''), down_world,
      \<lparr>pending = [\<lparr>id = None, tank_id = Some 5, level_cm = JInt 12, timestamp = None\<rparr>],
       inactive = True\<rparr>)"
  by (simp add: try_block_def level_message_def down_world_def example_world_def
      json_loads_payload_def py_index_def py_int_5 py_subscript_def session_commit_def
      session_add_def new_session_def Let_def)

lemma null_level_message_try_block:
  "db_down w = None \<Longrightarrow>
     try_block w null_level_message new_session =
       (Inl (IntegrityError, ''null value violates not-null constraint''),
        w\<lparr>db_seq := db_seq w + 1\<rparr>,
        \<lparr>pending = [\<lparr>id = None, tank_id = Some 5, level_cm = JNull, timestamp = None\<rparr>],
         inactive = True\<rparr>)"
  by (simp add: try_block_def null_level_message_def json_loads_payload_def py_index_def
      py_int_5 py_subscript_def session_commit_def session_add_def new_session_def
      insert_row_def integer_column_def int32_ok_def float_column_def Let_def)

text \<open>A level that is \<^verbatim>\<open>null\<close> persists nothing and uses up one identifier.\<close>

lemma null_level_message_effect:
  "db_down w = None \<Longrightarrow>
     handle_mqtt_message w null_level_message =
       (Inr (),
        w\<lparr>db_seq := db_seq w + 1,
           stdout := stdout w @ [LogError (IntegrityError,
                                           ''null value violates not-null constraint''),
                                 LogFailedPayload ''{\"level\": null}'']\<rparr>)"
  by (simp add: handle_mqtt_message_def handle_in_context_def null_level_message_try_block
      payload_decode_def session_rollback_def)
     (simp add: null_level_message_def)

lemma level_message_effect:
  "handle_mqtt_message example_world level_message =
     (Inr (),
      example_world
        \<lparr>db_rows := [\<lparr>id = Some 1, tank_id = Some 5, level_cm = JFloat 12 0,
                       timestamp = Some example_time\<rparr>],
         db_seq := 2,
         stdout := [LogDb ''5'' (JInt 12)]\<rparr>)"
  by (simp add: handle_mqtt_message_def handle_in_context_def try_block_def level_message_def
      example_world_def json_loads_payload_def py_index_def py_int_5 py_subscript_def
      session_commit_def session_add_def new_session_def insert_row_def integer_column_def
      int32_ok_def float_column_def double_of_int_def Let_def)


text \<open>A level that is the string \<^verbatim>\<open>"12.5"\<close> is read by the database and stored as
  the double \<open>12.5\<close>.\<close>

lemma pg_float8in_12_5: "pg_float8in ''12.5'' = Some (JFloat 25 (- 1))"
  by (simp add: pg_float8in_def c_isspace_def is_digit_def read_exponent_def decimal_value_def
      double_of_ratio_def scaled_quotient_def bit_length.simps strip_zero_bits.simps Let_def)

lemma text_level_message_effect:
  "db_rows (snd (handle_mqtt_message example_world text_level_message)) =
     [\<lparr>id = Some 1, tank_id = Some 5, level_cm = JFloat 25 (- 1),
       timestamp = Some example_time\<rparr>]"
  by (simp add: handle_mqtt_message_def handle_in_context_def try_block_def
      text_level_message_def example_world_def json_loads_payload_def py_index_def py_int_5
      py_subscript_def session_commit_def session_add_def new_session_def insert_row_def
      integer_column_def int32_ok_def float_column_def pg_float8in_12_5 Let_def)

text \<open>An integer level beyond \<open>2 ^ 53\<close> is stored as the nearest double.\<close>

lemma double_of_int_rounds: "double_of_int 9007199254740993 = Some (JFloat 1 53)"
  by (simp add: double_of_int_def double_of_ratio_def scaled_quotient_def bit_length.simps
      strip_zero_bits.simps Let_def)

lemma isoformat_example_time: "isoformat example_time = ''2024-01-02T03:04:05''"
  by (simp add: isoformat_def example_time_def zero_pad_def str_nat.simps digit_char_def)

lemma isoformat_later_time: "isoformat later_time = ''2024-01-02T03:05:00.250000''"
  by (simp add: isoformat_def later_time_def zero_pad_def str_nat.simps digit_char_def)

lemma stocked_world_ordered:
  "order_by_timestamp_desc (db_rows stocked_world) =
     [\<lparr>id = Some 2, tank_id = Some 7, level_cm = JFloat 25 (- 1), timestamp = Some later_time\<rparr>,
      \<lparr>id = Some 1, tank_id = Some 5, level_cm = JFloat 12 0, timestamp = Some example_time\<rparr>]"
  by (simp add: stocked_world_def example_world_def order_by_timestamp_desc_def newer_eq_def
      dt_key_def example_time_def later_time_def)

lemma example_run_rows:
  "db_rows (run example_world [OnMessage level_message, OnMessage null_level_message, GetLevels]) =
     [\<lparr>id = Some 1, tank_id = Some 5, level_cm = JFloat 12 0, timestamp = Some example_time\<rparr>]"
proof -
  define w1 where "w1 = snd (handle_mqtt_message example_world level_message)"
  have rows: "db_rows w1 =
      [\<lparr>id = Some 1, tank_id = Some 5, level_cm = JFloat 12 0, timestamp = Some example_time\<rparr>]"
    by (simp add: w1_def level_message_effect)
  have "db_down w1 = None"
    by (simp add: w1_def level_message_effect) (simp add: example_world_def)
  from null_level_message_effect [OF this] show ?thesis
    by (simp add: run_def w1_def [symmetric] rows)
qed

text \<open>After a message that failed on \<^verbatim>\<open>nullable=False\<close> the next reading gets the
  identifier after the one the failed row used.\<close>

lemma identifier_after_null_level:
  "db_rows (run example_world [OnMessage null_level_message, OnMessage level_message]) =
     [\<lparr>id = Some 2, tank_id = Some 5, level_cm = JFloat 12 0, timestamp = Some example_time\<rparr>]"
proof -
  have d: "db_down example_world = None" by (simp add: example_world_def)
  show ?thesis
    by (simp add: run_def null_level_message_effect [OF d])
       (simp add: handle_mqtt_message_def handle_in_context_def try_block_def level_message_def
        example_world_def json_loads_payload_def py_index_def py_int_5 py_subscript_def
        session_commit_def session_add_def new_session_def insert_row_def integer_column_def
        int32_ok_def float_column_def double_of_int_def Let_def)
qed

section \<open>The command endpoint: claims C1, C2 and C8\<close>

text \<open>
  Claim C1. A POST to \<^verbatim>\<open>/api/command/gate/5\<close> with body \<^verbatim>\<open>{"action":"open"}\<close> should be
  answered with status 200 and publish one message on \<^verbatim>\<open>command/gate/5/action\<close>. The
  view evaluates the name \<^verbatim>\<open>request\<close>, which the module never imports: the
  \<^verbatim>\<open>NameError\<close> is caught by the view's own \<^verbatim>\<open>except\<close>, the answer is status 500
  with the error text, and the world, so also the list of published messages, is as
  before.
\<close>

theorem post_open_answers_500:
  "api_command_gate w 5 (Inr (JObj [(''action'', JStr ''open'')])) =
     ((500, JObj [(''error'', JStr ''name 'request' is not defined'')]), w)"
  by (rule api_command_gate_name_error)

text \<open>
  Claim C2. A POST whose action is outside \<^verbatim>\<open>{open, close}\<close>, such as
  \<^verbatim>\<open>"explode"\<close>, should be answered with status 400 and publish nothing. Nothing is
  published, but for the same reason as in C1 the status is 500, not 400: the branch
  that answers 400 is never reached.
\<close>

theorem post_explode_answers_500:
  "api_command_gate w 5 (Inr (JObj [(''action'', JStr ''explode'')])) =
     ((500, JObj [(''error'', JStr ''name 'request' is not defined'')]), w)"
  by (rule api_command_gate_name_error)

text \<open>
  Claim C8, amended. For every target \<open>t\<close> of at most \<open>max_str_digits\<close>, that is 4300,
  decimal digits (\<open>\<bar>t\<bar> < 10 ^ max_str_digits\<close>) and every
  command string \<open>c\<close>, \<^verbatim>\<open>send_gate_command\<close> returns and adds exactly one message
  to what has been published. Its topic is \<^verbatim>\<open>command/gate/<t>/action\<close>, where
  \<^verbatim>\<open><t>\<close> is the decimal numeral of \<open>t\<close>: a minus sign when \<open>t\<close> is negative,
  then digits without a leading zero whose value is the magnitude of \<open>t\<close>. Its
  payload, read back by the JSON grammar, is the object \<^verbatim>\<open>{"action": c}\<close>.
\<close>

theorem send_gate_command_publishes_once:
  assumes "\<bar>t\<bar> < 10 ^ max_str_digits"
  shows "\<exists>w' ds sent.
     send_gate_command w t c = Inr w'
     \<and> mqtt_published w' =
         mqtt_published w
         @ [(''command/gate/'' @ (if t < 0 then ''-'' else []) @ ds @ ''/action'', sent)]
     \<and> ds \<noteq> [] \<and> list_all is_digit ds \<and> int (digits_value ds) = \<bar>t\<bar>
     \<and> (hd ds = CHR ''0'' \<longrightarrow> ds = ''0'')
     \<and> read_action sent = Some c"
proof (intro exI conjI)
  show "send_gate_command w t c =
      Inr (w\<lparr>mqtt_published := mqtt_published w
                  @ [(''command/gate/'' @ str_int t @ ''/action'', json_dumps_action c)],
             stdout := stdout w
                  @ [LogCmd (json_dumps_action c) (''command/gate/'' @ str_int t @ ''/action'')]\<rparr>)"
    using assms by (simp add: send_gate_command_def format_int_def Let_def)
  show "mqtt_published
         (w\<lparr>mqtt_published := mqtt_published w
                  @ [(''command/gate/'' @ str_int t @ ''/action'', json_dumps_action c)],
             stdout := stdout w
                  @ [LogCmd (json_dumps_action c) (''command/gate/'' @ str_int t @ ''/action'')]\<rparr>) =
       mqtt_published w
       @ [(''command/gate/'' @ (if t < 0 then ''-'' else []) @ str_nat (nat \<bar>t\<bar>) @ ''/action'',
           json_dumps_action c)]"
    by (simp add: str_int_def)
  show "str_nat (nat \<bar>t\<bar>) \<noteq> []" "list_all is_digit (str_nat (nat \<bar>t\<bar>))"
    using str_nat_digits by blast+
  show "int (digits_value (str_nat (nat \<bar>t\<bar>))) = \<bar>t\<bar>"
    by (simp add: digits_value_str_nat)
  show "hd (str_nat (nat \<bar>t\<bar>)) = CHR ''0'' \<longrightarrow> str_nat (nat \<bar>t\<bar>) = ''0''"
    using hd_str_nat [of "nat \<bar>t\<bar>"] by (auto simp: str_nat_0)
  show "read_action (json_dumps_action c) = Some c"
    by (rule read_action_dumps)
qed

lemma small_target: "\<bar>5::int\<bar> < 10 ^ max_str_digits"
proof -
  have "(10::int) ^ 1 \<le> 10 ^ max_str_digits"
    by (rule power_increasing) (simp_all add: max_str_digits_def)
  then show ?thesis by simp
qed

lemma send_gate_command_example:
  "send_gate_command w 5 ''open'' =
     Inr (w\<lparr>mqtt_published := mqtt_published w
                  @ [(''command/gate/5/action'', ''{\"action\": \"open\"}'')],
            stdout := stdout w
                  @ [LogCmd ''{\"action\": \"open\"}'' ''command/gate/5/action'']\<rparr>)"
  using small_target
  by (simp add: send_gate_command_def format_int_def Let_def str_int_def
      str_nat.simps digit_char_def json_dumps_action_def json_dumps_str_def json_escape_def)

theorem send_gate_command_publishes_once_witness:
  "\<bar>5::int\<bar> < 10 ^ max_str_digits
   \<and> map_sum (\<lambda>e. e) mqtt_published (send_gate_command example_world 5 ''open'') =
       Inr [(''command/gate/5/action'', ''{\"action\": \"open\"}'')]
   \<and> read_action ''{\"action\": \"open\"}'' = Some ''open''"
proof -
  have e: "map_sum (\<lambda>e. e) mqtt_published (send_gate_command example_world 5 ''open'') =
      Inr [(''command/gate/5/action'', ''{\"action\": \"open\"}'')]"
    by (simp add: send_gate_command_example) (simp add: example_world_def)
  from send_gate_command_publishes_once [OF small_target, of example_world "''open''"]
  obtain w' ds sent
    where ret: "send_gate_command example_world 5 ''open'' = Inr w'"
      and pub: "mqtt_published w' =
         mqtt_published example_world
         @ [(''command/gate/'' @ (if (5::int) < 0 then ''-'' else []) @ ds @ ''/action'', sent)]"
      and r: "read_action sent = Some ''open''"
    by blast
  from ret pub e have "sent = ''{\"action\": \"open\"}''"
    by (simp add: example_world_def)
  with r e small_target show ?thesis by simp
qed

text \<open>
  The claim as it was written, for every target, fails for the target
  \<open>10 ^ max_str_digits\<close>, of 4301 digits:
  Python does not format it, so \<^verbatim>\<open>send_gate_command\<close> raises while it builds the
  topic and publishes nothing.
\<close>

theorem send_gate_command_publishes_once_counterexample:
  "send_gate_command example_world (10 ^ max_str_digits) ''open'' =
     Inl (ValueError,
          ''Exceeds the limit (4300 digits) for integer string conversion; ''
          @ ''use sys.set_int_max_str_digits() to increase the limit'')"
  by (simp add: send_gate_command_def format_int_def)

section \<open>The message handler: claims C3, C4, C7 and C10\<close>

text \<open>
  Claim C3. A message without a usable level, also one whose payload fails to decode,
  should persist nothing and let no exception out of the handler. For a payload that is
  not UTF-8 the second half fails: \<^verbatim>\<open>payload.decode()\<close> raises inside \<^verbatim>\<open>try\<close>, and
  the \<^verbatim>\<open>except\<close> branch decodes the same payload again to print it, so the
  \<^verbatim>\<open>UnicodeDecodeError\<close> leaves the handler, whatever the topic.
\<close>

theorem undecodable_payload_escapes:
  "fst (handle_mqtt_message w \<lparr>topic = t, payload = Undecodable reason\<rparr>) =
     Inl (UnicodeDecodeError, reason)"
  by (simp add: handle_mqtt_message_def handle_in_context_def try_block_def
      json_loads_payload_def payload_decode_def Let_def)




text \<open>
  Claim C7. When the \<^verbatim>\<open>try\<close> block raises after the session has been touched, that
  is, in the commit, the handler rolls the session back: the handler returns normally,
  the rows of the table are as before the message, and the session at the end of the
  handler is a fresh one, with nothing pending.
\<close>

theorem persistence_failure_is_rolled_back:
  assumes "try_block w m new_session = (Inl e, w1, s1)" and "s1 \<noteq> new_session"
  shows "fst (handle_mqtt_message w m) = Inr ()
       \<and> db_rows (snd (handle_mqtt_message w m)) = db_rows w
       \<and> snd (snd (handle_in_context w m new_session)) = new_session"
proof -
  from try_block_raises [OF assms(1)] assms(2) obtain n t v
    where w1: "w1 = w\<lparr>db_seq := n\<rparr>" and p: "payload m = Document t v" by blast
  show ?thesis
    using assms(1)
    by (simp add: handle_mqtt_message_def handle_in_context_def w1 p payload_decode_Document
        session_rollback_def new_session_def)
qed

theorem persistence_failure_is_rolled_back_witness:
  "try_block down_world level_message new_session =
     (Inl (OperationalError, ''connection refused''), down_world,
      \<lparr>pending = [\<lparr>id = None, tank_id = Some 5, level_cm = JInt 12, timestamp = None\<rparr>],
       inactive = True\<rparr>)
   \<and> fst (handle_mqtt_message down_world level_message) = Inr ()
   \<and> db_rows (snd (handle_mqtt_message down_world level_message)) = []
   \<and> snd (snd (handle_in_context down_world level_message new_session)) = new_session
   \<and> fst (handle_mqtt_message example_world null_level_message) = Inr ()
   \<and> db_rows (snd (handle_mqtt_message example_world null_level_message)) = []"
proof -
  have h2: "\<lparr>pending = [\<lparr>id = None, tank_id = Some 5, level_cm = JInt 12, timestamp = None\<rparr>],
             inactive = True\<rparr> \<noteq> new_session"
    by (simp add: new_session_def)
  have rows: "db_rows down_world = []"
    by (simp add: down_world_def example_world_def)
  have up: "db_down example_world = None" "db_rows example_world = []"
    by (simp_all add: example_world_def)
  have h3: "\<lparr>pending = [\<lparr>id = None, tank_id = Some 5, level_cm = JNull, timestamp = None\<rparr>],
             inactive = True\<rparr> \<noteq> new_session"
    by (simp add: new_session_def)
  from persistence_failure_is_rolled_back [OF level_message_try_block_down h2]
       persistence_failure_is_rolled_back [OF null_level_message_try_block [OF up(1)] h3]
  show ?thesis
    by (simp add: level_message_try_block_down rows up(2))
qed

text \<open>
  Claim C10. On a topic \<^verbatim>\<open>sensor/tank/<id>/water_level\<close> whose segment \<^verbatim>\<open><id>\<close>
  \<^verbatim>\<open>int\<close> does not read as a base-10 integer, no reading is persisted and the
  \<^verbatim>\<open>ValueError\<close> of the conversion never leaves the handler. The handler returns
  normally unless the payload is not UTF-8 (the conversion is then not reached); when
  the payload parses, the conversion error and the payload are printed and the message
  is dropped.
\<close>

theorem bad_tank_id_is_dropped:
  assumes "topic m = ''sensor/tank/'' @ seg @ ''/water_level''" and "CHR ''/'' \<notin> set seg"
    and "py_int seg = Inl e"
  shows "db_rows (snd (handle_mqtt_message w m)) = db_rows w
       \<and> (\<forall>text. fst (handle_mqtt_message w m) \<noteq> Inl (ValueError, text))
       \<and> (case payload m of
            Undecodable reason \<Rightarrow> fst (handle_mqtt_message w m) = Inl (UnicodeDecodeError, reason)
          | Malformed t reason \<Rightarrow> fst (handle_mqtt_message w m) = Inr ()
          | Document t v \<Rightarrow>
              handle_mqtt_message w m =
                (Inr (), w\<lparr>stdout := stdout w @ [LogError e, LogFailedPayload t]\<rparr>))"
proof -
  have parts: "split_on CHR ''/'' (topic m) = ''sensor'' # ''tank'' # seg # ''water_level'' # []"
    using level_topic_parts [OF assms(2)] assms(1) by simp
  show ?thesis
  proof (cases "payload m")
    case (Undecodable reason)
    then show ?thesis
      by (simp add: handle_mqtt_message_def handle_in_context_def try_block_def
          json_loads_payload_def payload_decode_def)
  next
    case (Malformed t reason)
    then show ?thesis
      by (simp add: handle_mqtt_message_def handle_in_context_def try_block_def
          json_loads_payload_def payload_decode_def)
  next
    case (Document t v)
    then have "json_loads_payload (payload m) = Inr v"
      by (simp add: json_loads_payload_def)
    from try_block_level_topic [OF parts this] show ?thesis
      using assms(3) Document
      by (simp add: handle_mqtt_message_def handle_in_context_def payload_decode_def)
  qed
qed

theorem bad_tank_id_is_dropped_witness:
  "py_int ''abc'' =
     Inl (ValueError, ''invalid literal for int() with base 10: 'abc'' @ [CHR 0x27])
   \<and> handle_mqtt_message example_world bad_id_message =
       (Inr (),
        example_world
          \<lparr>stdout := [LogError (ValueError,
                                  ''invalid literal for int() with base 10: 'abc'' @ [CHR 0x27]),
                       LogFailedPayload ''{\"level\": 12}'']\<rparr>)"
proof -
  have h1: "topic bad_id_message = ''sensor/tank/'' @ ''abc'' @ ''/water_level''"
    by (simp add: bad_id_message_def)
  have h2: "CHR ''/'' \<notin> set ''abc''" by simp
  from bad_tank_id_is_dropped [OF h1 h2 py_int_abc, of example_world]
  show ?thesis
    by (simp add: py_int_abc bad_id_message_def example_world_def)
qed

section \<open>The read endpoints: claims C5 and C6\<close>

text \<open>
  Claim C5. With the database reachable and a timestamp on every stored row (the column
  default gives one to each row this system inserts), \<^verbatim>\<open>GET /api/levels\<close> answers 200
  with one object \<^verbatim>\<open>{id, tank_id, level_cm, timestamp}\<close> per stored reading: the rows
  returned are the stored rows, all of them and each once, in an order in which no row
  is older than the next one.
\<close>

theorem get_levels_newest_first:
  assumes "db_down w = None" and "list_all (\<lambda>r. timestamp r \<noteq> None) (db_rows w)"
  shows "get_levels w =
           Inr (200, JArr (map (\<lambda>r. JObj [(''id'', json_of_int_option (id r)),
                                           (''tank_id'', json_of_int_option (tank_id r)),
                                           (''level_cm'', level_cm r),
                                           (''timestamp'', JStr (isoformat (the (timestamp r))))])
                               (order_by_timestamp_desc (db_rows w))))
       \<and> mset (order_by_timestamp_desc (db_rows w)) = mset (db_rows w)
       \<and> sorted_wrt newer_eq (order_by_timestamp_desc (db_rows w))"
proof -
  have "set (order_by_timestamp_desc (db_rows w)) = set (db_rows w)"
    using mset_order_by [of "db_rows w"] by (metis set_mset_mset)
  then have "list_all (\<lambda>r. timestamp r \<noteq> None) (order_by_timestamp_desc (db_rows w))"
    using assms(2) by (simp add: list_all_iff)
  then show ?thesis
    using assms(1)
    by (simp add: get_levels_def comprehension_level_dict mset_order_by sorted_order_by)
qed

theorem get_levels_newest_first_witness:
  "get_levels stocked_world =
     Inr (200, JArr [JObj [(''id'', JInt 2), (''tank_id'', JInt 7),
                           (''level_cm'', JFloat 25 (- 1)),
                           (''timestamp'', JStr ''2024-01-02T03:05:00.250000'')],
                     JObj [(''id'', JInt 1), (''tank_id'', JInt 5),
                           (''level_cm'', JFloat 12 0),
                           (''timestamp'', JStr ''2024-01-02T03:04:05'')]])"
proof -
  have h1: "db_down stocked_world = None"
    by (simp add: stocked_world_def example_world_def)
  have h2: "list_all (\<lambda>r. timestamp r \<noteq> None) (db_rows stocked_world)"
    by (simp add: stocked_world_def example_world_def)
  from get_levels_newest_first [OF h1 h2] show ?thesis
    by (simp add: stocked_world_ordered isoformat_example_time isoformat_later_time
        json_of_int_option_def)
qed

text \<open>
  Claim C6. The health endpoint always answers 200. When the database answers, the body
  has \<^verbatim>\<open>db_status\<close> \<^verbatim>\<open>"ok"\<close> and no \<^verbatim>\<open>db_error_message\<close>; when it cannot be
  reached, the body has \<^verbatim>\<open>db_status\<close> \<^verbatim>\<open>"error"\<close> and the error's text under
  \<^verbatim>\<open>db_error_message\<close>. The text is attached by a truth test, so it has to be a text
  that is not empty, as the texts of database errors are.
\<close>

theorem home_reports_store:
  "fst (home w) = 200
   \<and> (db_down w = None \<longrightarrow>
        home w = (200, JObj [(''status'', JStr ''Eelytics API is Live''),
                             (''mqtt_status'', JBool (mqtt_connected w)),
                             (''db_status'', JStr ''ok'')]))
   \<and> (\<forall>text. db_down w = Some text \<and> text \<noteq> [] \<longrightarrow>
        home w = (200, JObj [(''status'', JStr ''Eelytics API is Live''),
                             (''mqtt_status'', JBool (mqtt_connected w)),
                             (''db_status'', JStr ''error''),
                             (''db_error_message'', JStr text)]))"
  by (simp add: home_def execute_select_1_def str_exn_def Let_def split: option.splits)

theorem home_reports_store_witness:
  "home down_world =
     (200, JObj [(''status'', JStr ''Eelytics API is Live''),
                 (''mqtt_status'', JBool True),
                 (''db_status'', JStr ''error''),
                 (''db_error_message'', JStr ''connection refused'')])
   \<and> home example_world =
     (200, JObj [(''status'', JStr ''Eelytics API is Live''),
                 (''mqtt_status'', JBool True),
                 (''db_status'', JStr ''ok'')])"
  using home_reports_store [of down_world] home_reports_store [of example_world]
  by (simp add: down_world_def example_world_def)

section \<open>The table over any run of the system: claim C9\<close>

text \<open>
  Claim C9. Whatever operations the system performs, in whatever order, the rows that
  were in the table stay as they were, at their places (none is changed, none is
  removed), and every row that has been added has a \<open>tank_id\<close> and a \<open>level_cm\<close>
  that are not null.
\<close>

theorem readings_are_complete_and_kept:
  "take (length (db_rows w)) (db_rows (run w ops)) = db_rows w
   \<and> list_all (\<lambda>r. tank_id r \<noteq> None \<and> level_cm r \<noteq> JNull)
        (drop (length (db_rows w)) (db_rows (run w ops)))"
proof -
  from run_rows [of w ops] obtain new where n: "db_rows (run w ops) = db_rows w @ new"
    "list_all (\<lambda>r. tank_id r \<noteq> None \<and> level_cm r \<noteq> JNull \<and> timestamp r \<noteq> None) new"
    by blast
  then show ?thesis by (auto simp: list_all_iff)
qed

theorem readings_are_complete_and_kept_witness:
  "db_rows (run example_world [OnMessage level_message, OnMessage null_level_message, GetLevels]) =
     [\<lparr>id = Some 1, tank_id = Some 5, level_cm = JFloat 12 0, timestamp = Some example_time\<rparr>]"
  using readings_are_complete_and_kept
    [of example_world "[OnMessage level_message, OnMessage null_level_message, GetLevels]"]
  by (simp add: example_run_rows)

end
